theory Spec2Isabelle
  imports Complex_Main "HOL-Library.Word"
begin

section \<open>JavaScript values\<close>

text \<open>
  The handler (\<^verbatim>\<open>demos/rds-init-fn-code/index.js\<close>) and the construct
  (\<^verbatim>\<open>lib/resource-initializer.ts\<close>) pass plain JavaScript data around: the
  invocation event, the decoded secret, error objects, the \<^verbatim>\<open>config\<close> object.
  A value is a primitive, an array, or an object given by its own properties in
  enumeration order. A finite double is a rational (both zeros are \<open>Finite 0\<close>).
\<close>

datatype number = NaN | PosInfinity | NegInfinity | Finite rat

datatype jsval =
    JUndefined
  | JNull
  | JBool bool
  | JNum number
  | JStr string
  | JArr "jsval list"
  | JObj "(string \<times> jsval) list"

text \<open>ToBoolean: what \<^verbatim>\<open>if (err)\<close> and \<^verbatim>\<open>a || b\<close> test.\<close>

fun truthy_number :: "number \<Rightarrow> bool" where
  "truthy_number NaN = False"
| "truthy_number (Finite q) = (q \<noteq> 0)"
| "truthy_number PosInfinity = True"
| "truthy_number NegInfinity = True"

fun truthy :: "jsval \<Rightarrow> bool" where
  "truthy JUndefined = False"
| "truthy JNull = False"
| "truthy (JBool b) = b"
| "truthy (JNum n) = truthy_number n"
| "truthy (JStr s) = (s \<noteq> [])"
| "truthy (JArr xs) = True"
| "truthy (JObj ps) = True"

text \<open>
  An error object as the engine and the libraries build it: an object whose own
  properties include \<^verbatim>\<open>name\<close> and \<^verbatim>\<open>message\<close>.
\<close>

type_synonym js_error = "(string \<times> jsval) list"

definition TypeError :: "string \<Rightarrow> jsval" where
  "TypeError msg = JObj [(''name'', JStr ''TypeError''), (''message'', JStr msg)]"

text \<open>
  Property read \<^verbatim>\<open>v.k\<close>: reading from \<^verbatim>\<open>undefined\<close> or \<^verbatim>\<open>null\<close> throws a
  TypeError (\<open>Inl\<close>; the wording of its message is the engine's, here V8's), a
  property an object does not own reads as \<^verbatim>\<open>undefined\<close>. The property names the
  sources read (\<^verbatim>\<open>params\<close>, \<^verbatim>\<open>config\<close>, \<^verbatim>\<open>credsSecretName\<close>, \<^verbatim>\<open>SecretString\<close>,
  \<^verbatim>\<open>password\<close>, \<^verbatim>\<open>username\<close>, \<^verbatim>\<open>host\<close>, \<^verbatim>\<open>message\<close>) are not properties of
  primitives or arrays.
\<close>

definition quoted :: "string \<Rightarrow> string" where
  "quoted k = [CHR 0x27] @ k @ [CHR 0x27]"

fun get :: "jsval \<Rightarrow> string \<Rightarrow> jsval + jsval" where
  "get JUndefined k =
     Inl (TypeError (''Cannot read properties of undefined (reading '' @ quoted k @ '')''))"
| "get JNull k =
     Inl (TypeError (''Cannot read properties of null (reading '' @ quoted k @ '')''))"
| "get (JObj ps) k = Inr (case map_of ps k of Some v \<Rightarrow> v | None \<Rightarrow> JUndefined)"
| "get v k = Inr JUndefined"

text \<open>
  One property of a destructuring pattern, \<^verbatim>\<open>const { k } = source\<close>, where the
  expression \<open>source\<close> has the value \<open>v\<close>. It reads as \<^verbatim>\<open>v.k\<close> does, but the
  TypeError for \<^verbatim>\<open>undefined\<close> and \<^verbatim>\<open>null\<close> has the wording V8 gives a pattern,
  which quotes the source expression (\<^verbatim>\<open>(intermediate value)\<close> for an awaited call).
\<close>

definition destructure :: "string \<Rightarrow> jsval \<Rightarrow> string \<Rightarrow> jsval + jsval" where
  "destructure source v k =
     (case v of
        JUndefined \<Rightarrow>
          Inl (TypeError (''Cannot destructure property '' @ quoted k @ '' of ''
                          @ quoted source @ '' as it is undefined.''))
      | JNull \<Rightarrow>
          Inl (TypeError (''Cannot destructure property '' @ quoted k @ '' of ''
                          @ quoted source @ '' as it is null.''))
      | _ \<Rightarrow> get v k)"

section \<open>The handler: \<^verbatim>\<open>demos/rds-init-fn-code/index.js\<close>\<close>

text \<open>
  What the handler calls and does not define is a parameter: the Secrets Manager
  client, \<^verbatim>\<open>JSON.parse\<close>, the file system and the MySQL client.
  \<^item> \<open>secrets_getSecretValue\<close>: the pair \<^verbatim>\<open>(err, data)\<close> the SDK hands to the
    callback of \<^verbatim>\<open>secrets.getSecretValue(params, callback)\<close>;
  \<^item> \<open>JSON_parse\<close>: the parsed value, or (\<open>Inl\<close>) the SyntaxError it throws;
  \<^item> \<open>fs_readFileSync\<close>: the file's text, or (\<open>Inl\<close>) the error it throws;
  \<^item> \<open>connection_query\<close>: the pair \<^verbatim>\<open>(error, res)\<close> the client hands to the
    callback of \<^verbatim>\<open>connection.query(sql, callback)\<close> on a connection created with the
    given options and connected.
  Each callback is taken to be called once, and later than the call that registers it
  (both libraries answer from the network).
\<close>

record connection_config =
  host :: jsval
  user :: jsval
  password :: jsval
  multipleStatements :: bool

record platform =
  secrets_getSecretValue :: "jsval \<Rightarrow> jsval \<times> jsval"
  JSON_parse :: "jsval \<Rightarrow> js_error + jsval"
  dirname :: string
  path_join :: "string \<Rightarrow> string \<Rightarrow> string"
  fs_readFileSync :: "string \<Rightarrow> js_error + string"
  connection_query :: "connection_config \<Rightarrow> string \<Rightarrow> jsval \<times> jsval"

text \<open>The calls the handler makes on the outside world, in order.\<close>

datatype effect =
    SecretsGetSecretValue jsval
  | MysqlCreateConnection connection_config
  | ConnectionConnect connection_config
  | FsReadFileSync string
  | ConnectionQuery connection_config string

text \<open>
  The state a promise ends in. \<open>Fulfilled\<close> and \<open>Rejected\<close> are the settled states.
  \<open>NeverSettled x\<close>: the callback that was to call \<^verbatim>\<open>resolve\<close> or \<^verbatim>\<open>reject\<close>
  threw \<open>x\<close> instead. The callback runs from the library's event dispatch, after the
  executor of \<^verbatim>\<open>new Promise\<close> has returned, so the exception does not reject the
  promise: it leaves through the library as an uncaught exception of the process, and
  the promise stays pending.
\<close>

datatype promise = Fulfilled jsval | Rejected jsval | NeverSettled jsval

text \<open>
  \<^verbatim>\<open>
  function getSecretValue (secretId) {
    return new Promise((resolve, reject) => {
      secrets.getSecretValue({ SecretId: secretId }, (err, data) => {
        if (err) return reject(err)
        return resolve(JSON.parse(data.SecretString))
      })
    })
  }
  \<close>
\<close>

definition getSecretValue :: "platform \<Rightarrow> jsval \<Rightarrow> promise" where
  "getSecretValue P secretId =
     (case secrets_getSecretValue P (JObj [(''SecretId'', secretId)]) of
        (err, data) \<Rightarrow>
          if truthy err then Rejected err
          else (case get data ''SecretString'' of
                  Inl x \<Rightarrow> NeverSettled x
                | Inr s \<Rightarrow>
                    (case JSON_parse P s of
                       Inl x \<Rightarrow> NeverSettled (JObj x)
                     | Inr v \<Rightarrow> Fulfilled v)))"

text \<open>
  \<^verbatim>\<open>
  function query (connection, sql) {
    return new Promise((resolve, reject) => {
      connection.query(sql, (error, res) => {
        if (error) return reject(error)
        return resolve(res)
      })
    })
  }
  \<close>
\<close>

definition query :: "platform \<Rightarrow> connection_config \<Rightarrow> string \<Rightarrow> promise" where
  "query P connection sql =
     (case connection_query P connection sql of
        (error, res) \<Rightarrow> if truthy error then Rejected error else Fulfilled res)"

text \<open>
  What the MySQL client passes as \<^verbatim>\<open>res\<close> when the statements ran: the rows
  as an array, a result packet as an object, or an array of these when the script
  holds several statements.
\<close>

fun result_set :: "jsval \<Rightarrow> bool" where
  "result_set (JArr rows) = True"
| "result_set (JObj packet) = True"
| "result_set v = False"

text \<open>
  How the body of the \<^verbatim>\<open>try\<close> block ends: it returns a value, it throws (a
  synchronous throw, or an awaited promise that rejects), or it waits for ever on a
  promise that never settles.
\<close>

datatype completion = Return jsval | Throw jsval | Waits jsval

text \<open>
  The statements after \<^verbatim>\<open>await getSecretValue(...)\<close> has produced \<open>secret\<close>:
  \<^verbatim>\<open>
    const { password, username, host } = await getSecretValue(config.credsSecretName)
    const connection = mysql.createConnection({
      host, user: username, password, multipleStatements: true })
    connection.connect()
    const sqlScript = fs.readFileSync(path.join(__dirname, 'script.sql')).toString()
    const res = await query(connection, sqlScript)
    return { status: 'OK', results: res }
  \<close>
\<close>

definition run_script ::
  "platform \<Rightarrow> effect list \<Rightarrow> connection_config \<Rightarrow> effect list \<times> completion" where
  "run_script P t connection =
     (let file = path_join P (dirname P) ''script.sql'';
          t2 = t @ [MysqlCreateConnection connection, ConnectionConnect connection,
                    FsReadFileSync file]
      in (case fs_readFileSync P file of
            Inl x \<Rightarrow> (t2, Throw (JObj x))
          | Inr sqlScript \<Rightarrow>
              (let t3 = t2 @ [ConnectionQuery connection sqlScript]
               in (case query P connection sqlScript of
                     Rejected error \<Rightarrow> (t3, Throw error)
                   | NeverSettled x \<Rightarrow> (t3, Waits x)
                   | Fulfilled res \<Rightarrow>
                       (t3, Return (JObj [(''status'', JStr ''OK''), (''results'', res)]))))))"

definition with_secret :: "platform \<Rightarrow> effect list \<Rightarrow> jsval \<Rightarrow> effect list \<times> completion" where
  "with_secret P t secret =
     (case destructure ''(intermediate value)'' secret ''password'' of
        Inl x \<Rightarrow> (t, Throw x)
      | Inr password' \<Rightarrow>
          (case destructure ''(intermediate value)'' secret ''username'' of
             Inl x \<Rightarrow> (t, Throw x)
           | Inr username' \<Rightarrow>
               (case destructure ''(intermediate value)'' secret ''host'' of
                  Inl x \<Rightarrow> (t, Throw x)
                | Inr host' \<Rightarrow>
                    run_script P t
                      \<lparr>host = host', user = username', password = password',
                       multipleStatements = True\<rparr>)))"

text \<open>
  The head of the \<^verbatim>\<open>try\<close> block:
  \<^verbatim>\<open>
    const { config } = e.params
    const secret = await getSecretValue(config.credsSecretName)
  \<close>
\<close>

definition await_secret :: "platform \<Rightarrow> jsval \<Rightarrow> effect list \<times> completion" where
  "await_secret P secretId =
     (let t1 = [SecretsGetSecretValue (JObj [(''SecretId'', secretId)])]
      in (case getSecretValue P secretId of
            Rejected err \<Rightarrow> (t1, Throw err)
          | NeverSettled x \<Rightarrow> (t1, Waits x)
          | Fulfilled secret \<Rightarrow> with_secret P t1 secret))"

definition try_block :: "platform \<Rightarrow> jsval \<Rightarrow> effect list \<times> completion" where
  "try_block P e =
     (case get e ''params'' of
        Inl x \<Rightarrow> ([], Throw x)
      | Inr params \<Rightarrow>
          (case destructure ''e.params'' params ''config'' of
             Inl x \<Rightarrow> ([], Throw x)
           | Inr config \<Rightarrow>
               (case get config ''credsSecretName'' of
                  Inl x \<Rightarrow> ([], Throw x)
                | Inr secretId \<Rightarrow> await_secret P secretId)))"

text \<open>
  \<^verbatim>\<open>
  } catch (err) {
    return { status: 'ERROR', err, message: err.message }
  }
  \<close>
  Reading \<^verbatim>\<open>err.message\<close> throws when \<^verbatim>\<open>err\<close> is \<^verbatim>\<open>undefined\<close> or \<^verbatim>\<open>null\<close>;
  an exception thrown inside the \<^verbatim>\<open>catch\<close> block rejects the handler's promise.
\<close>

definition catch_block :: "jsval \<Rightarrow> promise" where
  "catch_block err =
     (case get err ''message'' of
        Inl x \<Rightarrow> Rejected x
      | Inr m \<Rightarrow> Fulfilled (JObj [(''status'', JStr ''ERROR''), (''err'', err), (''message'', m)]))"

text \<open>\<^verbatim>\<open>exports.handler = async (e) => { try { ... } catch (err) { ... } }\<close>\<close>

definition handler :: "platform \<Rightarrow> jsval \<Rightarrow> effect list \<times> promise" where
  "handler P e =
     (case try_block P e of
        (t, Return v) \<Rightarrow> (t, Fulfilled v)
      | (t, Throw err) \<Rightarrow> (t, catch_block err)
      | (t, Waits x) \<Rightarrow> (t, NeverSettled x))"

text \<open>
  The connections an invocation creates (\<^verbatim>\<open>mysql.createConnection\<close>) and the ones it
  connects (\<^verbatim>\<open>connection.connect()\<close>), each by its options.
\<close>

definition created :: "effect list \<Rightarrow> connection_config list" where
  "created t =
     concat (map (\<lambda>eff. case eff of MysqlCreateConnection c \<Rightarrow> [c] | _ \<Rightarrow> []) t)"

definition connected :: "effect list \<Rightarrow> connection_config list" where
  "connected t =
     concat (map (\<lambda>eff. case eff of ConnectionConnect c \<Rightarrow> [c] | _ \<Rightarrow> []) t)"

section \<open>The construct: \<^verbatim>\<open>lib/resource-initializer.ts\<close>\<close>

text \<open>
  \<^verbatim>\<open>Duration.minutes(10)\<close> of the CDK is an amount with its unit.
\<close>

datatype TimeUnit = Milliseconds | Seconds | Minutes | Hours | Days

datatype Duration = Duration number TimeUnit

definition Duration_minutes :: "number \<Rightarrow> Duration" where
  "Duration_minutes amount = Duration amount Minutes"

text \<open>
  \<^verbatim>\<open>
  export interface CdkResourceInitializerProps {
    vpc: ec2.IVpc
    subnetsSelection: ec2.SubnetSelection
    fnSecurityGroups: ec2.ISecurityGroup[]
    fnTimeout: Duration
    fnCode: lambda.DockerImageCode
    fnLogRetention: RetentionDays
    fnMemorySize?: number
    config: any
  }
  \<close>
  The CDK's own classes (\<open>'vpc\<close>, \<open>'sel\<close>, \<open>'sg\<close>, \<open>'code\<close>, \<open>'ret\<close>) are
  handles the constructor only passes on. The optional \<^verbatim>\<open>fnMemorySize\<close> is \<open>None\<close>
  when the property is absent or \<^verbatim>\<open>undefined\<close>.
\<close>

record ('vpc, 'sel, 'sg, 'code, 'ret) CdkResourceInitializerProps =
  vpc :: 'vpc
  subnetsSelection :: 'sel
  fnSecurityGroups :: "'sg list"
  fnTimeout :: Duration
  fnCode :: 'code
  fnLogRetention :: 'ret
  fnMemorySize :: "number option"
  config :: jsval

text \<open>The constructs the constructor creates, each by the properties it passes.\<close>

record 'vpc SecurityGroupProps =
  securityGroupName :: string
  sg_vpc :: 'vpc
  sg_allowAllOutbound :: bool

datatype ('vpc, 'sg) SecurityGroup =
    NewSecurityGroup "'vpc SecurityGroupProps"
  | GivenSecurityGroup 'sg

datatype ('vpc, 'sel) SelectedSubnets = SelectSubnets 'vpc 'sel

record ('vpc, 'sel, 'sg, 'code, 'ret) DockerImageFunctionProps =
  memorySize :: number
  functionName :: string
  code :: 'code
  vpcSubnets :: "('vpc, 'sel) SelectedSubnets"
  fn_vpc :: 'vpc
  securityGroups :: "('vpc, 'sg) SecurityGroup list"
  fn_timeout :: Duration
  logRetention :: 'ret
  allowAllOutbound :: bool

record SdkCallParameters =
  FunctionName :: string
  Payload :: string

record AwsSdkCall =
  service :: string
  action :: string
  parameters :: SdkCallParameters
  physicalResourceId :: string

record PolicyStatement =
  resources :: "string list"
  actions :: "string list"

record Role =
  assumedBy :: string
  statements :: "PolicyStatement list"

record AwsCustomResourceProps =
  policy :: "string list"
  onUpdate :: AwsSdkCall
  timeout :: Duration
  role :: Role

datatype ResponseField = GetResponseField string

record ('vpc, 'sel, 'sg, 'code, 'ret) CdkResourceInitializer =
  response :: ResponseField
  customResource :: AwsCustomResourceProps
  function' :: "('vpc, 'sel, 'sg, 'code, 'ret) DockerImageFunctionProps"

text \<open>
  What the constructor calls and does not define is a parameter:
  \<^verbatim>\<open>calculateFunctionHash\<close> of the CDK, \<^verbatim>\<open>JSON.stringify\<close>, and the MD5 of
  \<^verbatim>\<open>createHash('md5')\<close>, which maps the bytes of a string to a digest of 128 bits
  (the 16 bytes of the digest, first byte most significant).
\<close>

record ('vpc, 'sel, 'sg, 'code, 'ret) cdk =
  calculateFunctionHash :: "('vpc, 'sel, 'sg, 'code, 'ret) DockerImageFunctionProps \<Rightarrow> string"
  JSON_stringify :: "jsval \<Rightarrow> string"
  md5 :: "string \<Rightarrow> 128 word"

text \<open>\<^verbatim>\<open>.digest('hex')\<close>: the digest as 32 lower-case hexadecimal digits.\<close>

definition hex_digit :: "nat \<Rightarrow> char" where
  "hex_digit d = ''0123456789abcdef'' ! d"

fun hex_digits :: "nat \<Rightarrow> nat \<Rightarrow> string" where
  "hex_digits 0 n = []"
| "hex_digits (Suc k) n = hex_digits k (n div 16) @ [hex_digit (n mod 16)]"

definition digest_hex :: "128 word \<Rightarrow> string" where
  "digest_hex w = hex_digits 32 (unat w)"

text \<open>\<^verbatim>\<open>props.fnMemorySize || 128\<close>\<close>

definition or_default :: "number option \<Rightarrow> number \<Rightarrow> number" where
  "or_default a b = (case a of None \<Rightarrow> b | Some n \<Rightarrow> if truthy_number n then n else b)"

text \<open>
  \<^verbatim>\<open>
  const fnSg = new ec2.SecurityGroup(this, 'ResourceInitializerFnSg', {
    securityGroupName: `${id}ResourceInitializerFnSg`,
    vpc: props.vpc,
    allowAllOutbound: true
  })
  \<close>
\<close>

definition fnSg ::
  "string \<Rightarrow> ('vpc, 'sel, 'sg, 'code, 'ret) CdkResourceInitializerProps \<Rightarrow> ('vpc, 'sg) SecurityGroup"
  where
  "fnSg id' props =
     NewSecurityGroup
       \<lparr>securityGroupName = id' @ ''ResourceInitializerFnSg'',
        sg_vpc = vpc props,
        sg_allowAllOutbound = True\<rparr>"

text \<open>
  \<^verbatim>\<open>
  const fn = new lambda.DockerImageFunction(this, 'ResourceInitializerFn', {
    memorySize: props.fnMemorySize || 128,
    functionName: `${id}ResourceInitializerFn`,
    code: props.fnCode,
    vpcSubnets: props.vpc.selectSubnets(props.subnetsSelection),
    vpc: props.vpc,
    securityGroups: [fnSg, ...props.fnSecurityGroups],
    timeout: props.fnTimeout,
    logRetention: props.fnLogRetention,
    allowAllOutbound: true
  })
  \<close>
\<close>

definition fn ::
  "string \<Rightarrow> ('vpc, 'sel, 'sg, 'code, 'ret) CdkResourceInitializerProps
   \<Rightarrow> ('vpc, 'sel, 'sg, 'code, 'ret) DockerImageFunctionProps" where
  "fn id' props =
     \<lparr>memorySize = or_default (fnMemorySize props) (Finite 128),
      functionName = id' @ ''ResourceInitializerFn'',
      code = fnCode props,
      vpcSubnets = SelectSubnets (vpc props) (subnetsSelection props),
      fn_vpc = vpc props,
      securityGroups = fnSg id' props # map GivenSecurityGroup (fnSecurityGroups props),
      fn_timeout = fnTimeout props,
      logRetention = fnLogRetention props,
      allowAllOutbound = True\<rparr>"

text \<open>
  \<^verbatim>\<open>
  const payload: string = JSON.stringify({ params: { config: props.config } })
  \<close>
\<close>

definition payload ::
  "('vpc, 'sel, 'sg, 'code, 'ret) cdk \<Rightarrow> ('vpc, 'sel, 'sg, 'code, 'ret) CdkResourceInitializerProps
   \<Rightarrow> string" where
  "payload C props = JSON_stringify C (JObj [(''params'', JObj [(''config'', config props)])])"

text \<open>
  \<^verbatim>\<open>
  const physicalResIdHash = createHash('md5')
    .update(calculateFunctionHash(fn) + payload)
    .digest('hex')
  \<close>
  \<open>hash_input\<close> is the string hashed, \<open>token\<close> the hash of a function hash and a
  payload, \<open>physicalResIdHash\<close> the constant of the constructor.
\<close>

definition hash_input :: "string \<Rightarrow> string \<Rightarrow> string" where
  "hash_input functionHash payload' = functionHash @ payload'"

definition token :: "('vpc, 'sel, 'sg, 'code, 'ret) cdk \<Rightarrow> string \<Rightarrow> string \<Rightarrow> string" where
  "token C functionHash payload' = digest_hex (md5 C (hash_input functionHash payload'))"

definition physicalResIdHash ::
  "('vpc, 'sel, 'sg, 'code, 'ret) cdk \<Rightarrow> string
   \<Rightarrow> ('vpc, 'sel, 'sg, 'code, 'ret) CdkResourceInitializerProps \<Rightarrow> string" where
  "physicalResIdHash C id' props =
     token C (calculateFunctionHash C (fn id' props)) (payload C props)"

text \<open>
  \<^verbatim>\<open>
  const sdkCall: AwsSdkCall = {
    service: 'Lambda',
    action: 'invoke',
    parameters: { FunctionName: fn.functionName, Payload: payload },
    physicalResourceId: PhysicalResourceId.of(`${id}-AwsSdkCall-${physicalResIdHash}`)
  }
  \<close>
\<close>

definition sdkCall ::
  "('vpc, 'sel, 'sg, 'code, 'ret) cdk \<Rightarrow> string
   \<Rightarrow> ('vpc, 'sel, 'sg, 'code, 'ret) CdkResourceInitializerProps \<Rightarrow> AwsSdkCall" where
  "sdkCall C id' props =
     \<lparr>service = ''Lambda'',
      action = ''invoke'',
      parameters = \<lparr>FunctionName = functionName (fn id' props), Payload = payload C props\<rparr>,
      physicalResourceId = id' @ ''-AwsSdkCall-'' @ physicalResIdHash C id' props\<rparr>"

text \<open>
  \<^verbatim>\<open>
  const role = new Role(this, 'AwsCustomResourceRole', {
    assumedBy: new ServicePrincipal('lambda.amazonaws.com')
  })
  role.addToPolicy(
    new PolicyStatement({ resources: ['*'], actions: ['lambda:InvokeFunction'] }))
  \<close>
\<close>

definition role' :: Role where
  "role' =
     \<lparr>assumedBy = ''lambda.amazonaws.com'',
      statements = [\<lparr>resources = [''*''], actions = [''lambda:InvokeFunction'']\<rparr>]\<rparr>"

text \<open>
  \<^verbatim>\<open>
  this.customResource = new AwsCustomResource(this, 'AwsCustomResource', {
    policy: AwsCustomResourcePolicy.fromSdkCalls({
      resources: AwsCustomResourcePolicy.ANY_RESOURCE }),
    onUpdate: sdkCall,
    timeout: Duration.minutes(10),
    role
  })
  this.response = this.customResource.getResponseField('Payload')
  this.function = fn
  \<close>
\<close>

definition CdkResourceInitializer ::
  "('vpc, 'sel, 'sg, 'code, 'ret) cdk \<Rightarrow> string
   \<Rightarrow> ('vpc, 'sel, 'sg, 'code, 'ret) CdkResourceInitializerProps
   \<Rightarrow> ('vpc, 'sel, 'sg, 'code, 'ret) CdkResourceInitializer" where
  "CdkResourceInitializer C id' props =
     \<lparr>response = GetResponseField ''Payload'',
      customResource =
        \<lparr>policy = [''*''],
         onUpdate = sdkCall C id' props,
         timeout = Duration_minutes (Finite 10),
         role = role'\<rparr>,
      function' = fn id' props\<rparr>"


section \<open>An example deployment\<close>

text \<open>
  One concrete outside world, to run the handler and the constructor on. The secret
  store holds the secret \<^verbatim>\<open>x\<close> of the specification's scenario, whose text decodes to
  \<^verbatim>\<open>{username: "admin", password: "p", host: "h"}\<close>, and a secret \<^verbatim>\<open>broken\<close>
  whose text is cut off after \<^verbatim>\<open>{"username":\<close>; any other name is answered with
  the service's ResourceNotFoundException. \<open>demo_JSON_parse\<close> is \<^verbatim>\<open>JSON.parse\<close> on the
  two texts this store holds (the handler parses nothing else): the first is a JSON
  object, on the second \<^verbatim>\<open>JSON.parse\<close> throws a SyntaxError. The bundled script is
  \<^verbatim>\<open>SELECT 1;\<close>.
\<close>

definition ResourceNotFoundException :: jsval where
  \<open>ResourceNotFoundException =
     JObj [(''name'', JStr ''ResourceNotFoundException''),
           (''code'', JStr ''ResourceNotFoundException''),
           (''message'', JStr ''Secrets Manager can't find the specified secret.'')]\<close>

text \<open>
  The error object the SDK builds when the service's error response names no error
  type and carries no message.
\<close>

definition UnknownError :: jsval where
  "UnknownError =
     JObj [(''name'', JStr ''UnknownError''), (''code'', JStr ''UnknownError''),
           (''message'', JNull), (''statusCode'', JNum (Finite 400))]"

definition SyntaxError :: "string \<Rightarrow> js_error" where
  "SyntaxError msg = [(''name'', JStr ''SyntaxError''), (''message'', JStr msg)]"

definition demo_secrets :: "jsval \<Rightarrow> jsval \<times> jsval" where
  \<open>demo_secrets request =
     (if request = JObj [(''SecretId'', JStr ''x'')] then
        (JNull, JObj [(''Name'', JStr ''x''),
                      (''SecretString'', JStr ''{"username":"admin","password":"p","host":"h"}'')])
      else if request = JObj [(''SecretId'', JStr ''broken'')] then
        (JNull, JObj [(''Name'', JStr ''broken''), (''SecretString'', JStr ''{"username":'')])
      else (ResourceNotFoundException, JNull))\<close>

definition demo_JSON_parse :: "jsval \<Rightarrow> js_error + jsval" where
  \<open>demo_JSON_parse text =
     (if text = JStr ''{"username":"admin","password":"p","host":"h"}'' then
        Inr (JObj [(''username'', JStr ''admin''), (''password'', JStr ''p''),
                   (''host'', JStr ''h'')])
      else Inl (SyntaxError ''Unexpected end of JSON input''))\<close>

definition demo_readFileSync :: "string \<Rightarrow> js_error + string" where
  "demo_readFileSync file =
     (if file = ''/var/task/script.sql'' then Inr ''SELECT 1;''
      else Inl [(''name'', JStr ''Error''), (''code'', JStr ''ENOENT''),
                (''message'', JStr ''ENOENT: no such file or directory'')])"

definition demo_query :: "connection_config \<Rightarrow> string \<Rightarrow> jsval \<times> jsval" where
  "demo_query connection sql =
     (if host connection = JStr ''h'' \<and> user connection = JStr ''admin''
         \<and> password connection = JStr ''p'' \<and> sql = ''SELECT 1;''
      then (JNull, JArr [JObj [(''1'', JNum (Finite 1))]])
      else (JObj [(''name'', JStr ''Error''), (''code'', JStr ''ER_ACCESS_DENIED_ERROR''),
                  (''message'', JStr ''ER_ACCESS_DENIED_ERROR: Access denied'')],
            JUndefined))"

definition demo_platform :: platform where
  "demo_platform =
     \<lparr>secrets_getSecretValue = demo_secrets,
      JSON_parse = demo_JSON_parse,
      dirname = ''/var/task'',
      path_join = (\<lambda>a b. a @ ''/'' @ b),
      fs_readFileSync = demo_readFileSync,
      connection_query = demo_query\<rparr>"

text \<open>The invocation event \<^verbatim>\<open>{ params: { config: { credsSecretName: name } } }\<close>.\<close>

definition event :: "string \<Rightarrow> jsval" where
  "event name =
     JObj [(''params'', JObj [(''config'', JObj [(''credsSecretName'', JStr name)])])]"

text \<open>
  The construct's side of the example, after \<^verbatim>\<open>demos/rds-init-example.ts\<close>: the
  handles are units, the image is known by its directory, the log retention by its
  days. \<open>demo_calculateFunctionHash\<close>, \<open>demo_JSON_stringify\<close> and \<open>demo_md5\<close> stand
  in for the three library functions, so that the constructor can be run; the
  statements about the constructor hold for every choice of the three.
  \<open>demo_JSON_stringify\<close> is \<^verbatim>\<open>JSON.stringify\<close> on the payload object of this example
  and on the payload objects whose config is \<^verbatim>\<open>null\<close> or \<^verbatim>\<open>undefined\<close> (a property
  whose value is \<^verbatim>\<open>undefined\<close> is left out of the text); it is not asked for another
  value, and answers those as it answers a payload without config.
\<close>

definition demo_calculateFunctionHash ::
  "(unit, unit, unit, string, nat) DockerImageFunctionProps \<Rightarrow> string" where
  "demo_calculateFunctionHash f =
     (if code f = ''rds-init-fn-code'' then ''0f343b0931126a20f133d67c2b018a3b''
      else ''d41d8cd98f00b204e9800998ecf8427e'')"

definition demo_JSON_stringify :: "jsval \<Rightarrow> string" where
  \<open>demo_JSON_stringify v =
     (if v = JObj [(''params'', JObj [(''config'', JObj [(''credsSecretName'', JStr ''x'')])])]
      then ''{"params":{"config":{"credsSecretName":"x"}}}''
      else if v = JObj [(''params'', JObj [(''config'', JNull)])]
      then ''{"params":{"config":null}}''
      else ''{"params":{}}'')\<close>

definition demo_md5 :: "string \<Rightarrow> 128 word" where
  "demo_md5 s = of_nat (sum_list (map of_char s))"

definition demo_cdk :: "(unit, unit, unit, string, nat) cdk" where
  "demo_cdk =
     \<lparr>calculateFunctionHash = demo_calculateFunctionHash,
      JSON_stringify = demo_JSON_stringify,
      md5 = demo_md5\<rparr>"

definition demo_props :: "(unit, unit, unit, string, nat) CdkResourceInitializerProps" where
  "demo_props =
     \<lparr>vpc = (), subnetsSelection = (), fnSecurityGroups = [],
      fnTimeout = Duration_minutes (Finite 2), fnCode = ''rds-init-fn-code'',
      fnLogRetention = 150, fnMemorySize = None,
      config = JObj [(''credsSecretName'', JStr ''x'')]\<rparr>"

text \<open>
  The text of the payload for a config that is a string \<open>s\<close> of hexadecimal digits
  (none of which \<^verbatim>\<open>JSON.stringify\<close> escapes):
  \<^verbatim>\<open>JSON.stringify({ params: { config: s } })\<close>.
\<close>

definition hex_chars :: "char set" where
  "hex_chars = set ''0123456789abcdef''"

definition string_payload :: "string \<Rightarrow> string" where
  \<open>string_payload s = ''{"params":{"config":"'' @ s @ ''"}}''\<close>

section \<open>The handler's error boundary\<close>

lemmas handler_defs =
  handler_def try_block_def await_secret_def with_secret_def run_script_def
  getSecretValue_def query_def catch_block_def

text \<open>Whatever is thrown inside the \<^verbatim>\<open>try\<close> block is an object or a truthy value.\<close>

lemma get_throws_object: "get v k = Inl x \<Longrightarrow> x \<noteq> JUndefined \<and> x \<noteq> JNull"
  by (cases v) (auto simp: TypeError_def)

lemma destructure_throws_object:
  "destructure src v k = Inl x \<Longrightarrow> x \<noteq> JUndefined \<and> x \<noteq> JNull"
  by (cases v) (auto simp: destructure_def TypeError_def)

text \<open>Where the property can be read, the pattern reads it.\<close>

lemma destructure_get: "get v k = Inr u \<Longrightarrow> destructure src v k = Inr u"
  by (cases v) (auto simp: destructure_def)

lemma truthy_not_nullish: "truthy v \<Longrightarrow> v \<noteq> JUndefined \<and> v \<noteq> JNull"
  by (cases v) auto

lemma result_set_not_nullish: "result_set v \<Longrightarrow> v \<noteq> JUndefined \<and> v \<noteq> JNull"
  by (cases v) auto

lemma getSecretValue_Rejected: "getSecretValue P s = Rejected x \<Longrightarrow> truthy x"
  by (auto simp: getSecretValue_def split: prod.splits if_splits sum.splits)

lemma query_Rejected: "query P c s = Rejected x \<Longrightarrow> truthy x"
  by (auto simp: query_def split: prod.splits if_splits)

lemma query_settles: "query P c s \<noteq> NeverSettled x"
  by (auto simp: query_def split: prod.splits if_splits)

lemma run_script_Throw:
  "run_script P t c = (t', Throw x) \<Longrightarrow> x \<noteq> JUndefined \<and> x \<noteq> JNull"
  by (auto simp: run_script_def Let_def split: sum.splits promise.splits
      dest: query_Rejected truthy_not_nullish)

lemma with_secret_Throw:
  "with_secret P t s = (t', Throw x) \<Longrightarrow> x \<noteq> JUndefined \<and> x \<noteq> JNull"
  by (auto simp: with_secret_def split: sum.splits
      dest: destructure_throws_object run_script_Throw)

lemma await_secret_Throw:
  "await_secret P s = (t', Throw x) \<Longrightarrow> x \<noteq> JUndefined \<and> x \<noteq> JNull"
  by (auto simp: await_secret_def Let_def split: promise.splits
      dest: getSecretValue_Rejected truthy_not_nullish with_secret_Throw)

lemma try_block_Throw:
  "try_block P e = (t', Throw x) \<Longrightarrow> x \<noteq> JUndefined \<and> x \<noteq> JNull"
  by (auto simp: try_block_def split: sum.splits
      dest: get_throws_object destructure_throws_object await_secret_Throw)

lemma catch_block_Fulfilled:
  "x \<noteq> JUndefined \<Longrightarrow> x \<noteq> JNull \<Longrightarrow>
   \<exists>m. catch_block x =
     Fulfilled (JObj [(''status'', JStr ''ERROR''), (''err'', x), (''message'', m)])"
  by (cases x) (auto simp: catch_block_def)

text \<open>
  The handler's promise is never rejected: the \<^verbatim>\<open>catch\<close> block itself does not
  throw, since every value caught has a \<^verbatim>\<open>message\<close> property to read.
\<close>

lemma handler_never_rejects: "snd (handler P e) \<noteq> Rejected x"
proof -
  obtain t c where tc: "try_block P e = (t, c)"
    by (cases "try_block P e")
  show ?thesis
  proof (cases c)
    case (Throw err)
    with tc have "err \<noteq> JUndefined" "err \<noteq> JNull"
      using try_block_Throw by blast+
    then obtain m where
      "catch_block err =
         Fulfilled (JObj [(''status'', JStr ''ERROR''), (''err'', err), (''message'', m)])"
      using catch_block_Fulfilled by blast
    with tc Throw show ?thesis by (simp add: handler_def)
  qed (use tc in \<open>simp_all add: handler_def\<close>)
qed

text \<open>
  Every throw and every rejection inside the \<^verbatim>\<open>try\<close> block becomes the structured
  response.
\<close>

lemma handler_reports_throw:
  "try_block P e = (t, Throw err) \<Longrightarrow>
   \<exists>m. handler P e =
     (t, Fulfilled (JObj [(''status'', JStr ''ERROR''), (''err'', err), (''message'', m)]))"
  using try_block_Throw [of P e t err] catch_block_Fulfilled [of err]
  by (auto simp: handler_def)

text \<open>
  A secret whose text \<^verbatim>\<open>JSON.parse\<close> rejects: the SyntaxError is thrown inside the
  SDK's callback, where neither \<^verbatim>\<open>reject\<close> nor the handler's \<^verbatim>\<open>catch\<close> sees it. The
  handler's promise stays pending and no response is produced, on every platform.
\<close>

lemma handler_malformed_secret:
  assumes "get e ''params'' = Inr params" and "get params ''config'' = Inr cfg"
    and "get cfg ''credsSecretName'' = Inr secretId"
    and "secrets_getSecretValue P (JObj [(''SecretId'', secretId)]) = (err, data)"
    and "\<not> truthy err" and "get data ''SecretString'' = Inr text"
    and "JSON_parse P text = Inl x"
  shows "handler P e =
    ([SecretsGetSecretValue (JObj [(''SecretId'', secretId)])], NeverSettled (JObj x))"
  using assms by (simp add: handler_defs destructure_get [of params])

text \<open>
  Claim C1 says that no failure of an invocation leaves the handler as a fault: each
  one, in credential extraction, secret resolution, connection or script execution, is
  caught at the top level and returned as \<^verbatim>\<open>{status: "ERROR", err, message}\<close>. At
  the event naming the secret \<^verbatim>\<open>broken\<close>, whose stored text is not JSON, the handler
  returns no response at all: the SyntaxError of \<^verbatim>\<open>JSON.parse\<close> escapes through the
  SDK's callback and the handler's promise never settles.
\<close>

theorem handler_malformed_secret_not_reported:
  "handler demo_platform (event ''broken'') =
     ([SecretsGetSecretValue (JObj [(''SecretId'', JStr ''broken'')])],
      NeverSettled (JObj (SyntaxError ''Unexpected end of JSON input'')))"
  by (simp add: handler_defs destructure_def event_def demo_platform_def demo_secrets_def
      demo_JSON_parse_def)

text \<open>
  Claim C2 says that the failures of secret resolution (a missing secret, a stored
  text that is malformed JSON, access denied) all end in the same structured ERROR
  response. The missing secret does: the SDK's error rejects the promise of
  \<^verbatim>\<open>getSecretValue\<close> and the handler answers with the ERROR response. The malformed
  text does not: the promise of \<^verbatim>\<open>getSecretValue\<close> is neither fulfilled nor rejected,
  and the handler answers nothing.
\<close>

theorem secret_failures_not_uniform:
  \<open>getSecretValue demo_platform (JStr ''nope'') = Rejected ResourceNotFoundException
   \<and> snd (handler demo_platform (event ''nope'')) =
       Fulfilled (JObj [(''status'', JStr ''ERROR''), (''err'', ResourceNotFoundException),
         (''message'', JStr ''Secrets Manager can't find the specified secret.'')])
   \<and> getSecretValue demo_platform (JStr ''broken'') =
       NeverSettled (JObj (SyntaxError ''Unexpected end of JSON input''))
   \<and> snd (handler demo_platform (event ''broken'')) =
       NeverSettled (JObj (SyntaxError ''Unexpected end of JSON input''))\<close>
  by (simp add: handler_defs destructure_def event_def demo_platform_def demo_secrets_def
      demo_JSON_parse_def ResourceNotFoundException_def)

section \<open>The handler's responses\<close>

text \<open>
  Claim C4: when the event's config names a secret that the store resolves and whose
  text decodes to an object with \<^verbatim>\<open>username\<close>, \<^verbatim>\<open>password\<close> and \<^verbatim>\<open>host\<close>, the
  bundled script is read, and the client runs it without error and hands over its
  result set \<open>r\<close>, the handler returns \<^verbatim>\<open>{status: "OK", results: r}\<close>, and \<open>r\<close> is
  neither \<^verbatim>\<open>null\<close> nor \<^verbatim>\<open>undefined\<close>.
\<close>

theorem handler_ok:
  assumes "get e ''params'' = Inr params" and "get params ''config'' = Inr cfg"
    and "get cfg ''credsSecretName'' = Inr secretId"
    and "secrets_getSecretValue P (JObj [(''SecretId'', secretId)]) = (err, data)"
    and "\<not> truthy err" and "get data ''SecretString'' = Inr text"
    and "JSON_parse P text = Inr (JObj creds)"
    and "map_of creds ''username'' = Some username'"
    and "map_of creds ''password'' = Some password'"
    and "map_of creds ''host'' = Some host'"
    and "fs_readFileSync P (path_join P (dirname P) ''script.sql'') = Inr sqlScript"
    and "connection_query P
           \<lparr>host = host', user = username', password = password', multipleStatements = True\<rparr>
           sqlScript = (error, r)"
    and "\<not> truthy error" and "result_set r"
  shows "snd (handler P e) = Fulfilled (JObj [(''status'', JStr ''OK''), (''results'', r)])
         \<and> r \<noteq> JNull \<and> r \<noteq> JUndefined"
  using assms result_set_not_nullish [of r]
  by (simp add: handler_defs destructure_get [of params] destructure_get [of "JObj creds"])

theorem handler_ok_witness:
  "snd (handler demo_platform (event ''x'')) =
     Fulfilled (JObj [(''status'', JStr ''OK''),
                      (''results'', JArr [JObj [(''1'', JNum (Finite 1))]])])"
  using handler_ok [of "event ''x''"
      "JObj [(''config'', JObj [(''credsSecretName'', JStr ''x'')])]"
      "JObj [(''credsSecretName'', JStr ''x'')]" "JStr ''x''" demo_platform JNull
      \<open>JObj [(''Name'', JStr ''x''),
             (''SecretString'', JStr ''{"username":"admin","password":"p","host":"h"}'')]\<close>
      \<open>JStr ''{"username":"admin","password":"p","host":"h"}''\<close>
      "[(''username'', JStr ''admin''), (''password'', JStr ''p''), (''host'', JStr ''h'')]"
      "JStr ''admin''" "JStr ''p''" "JStr ''h''" "''SELECT 1;''" JNull
      "JArr [JObj [(''1'', JNum (Finite 1))]]"]
  by (simp add: event_def demo_platform_def demo_secrets_def demo_JSON_parse_def
      demo_readFileSync_def demo_query_def)

text \<open>
  Claim C5 says that for every unresolvable secret reference the handler returns
  \<^verbatim>\<open>{status: "ERROR", ...}\<close> whose message is a non-empty string. The handler
  copies \<^verbatim>\<open>err.message\<close>: when the store answers the lookup with an error object
  whose message is \<^verbatim>\<open>null\<close> (the service's error came without a message), the
  message of the response is \<^verbatim>\<open>null\<close>, not a non-empty string.
\<close>

theorem handler_error_message_null:
  "snd (handler (demo_platform\<lparr>secrets_getSecretValue := \<lambda>request. (UnknownError, JNull)\<rparr>)
          (event ''x'')) =
     Fulfilled (JObj [(''status'', JStr ''ERROR''), (''err'', UnknownError),
                      (''message'', JNull)])
   \<and> \<not> (\<exists>r m. snd (handler
            (demo_platform\<lparr>secrets_getSecretValue := \<lambda>request. (UnknownError, JNull)\<rparr>)
            (event ''x'')) = Fulfilled r
          \<and> get r ''message'' = Inr (JStr m) \<and> m \<noteq> [])"
  by (simp add: handler_defs destructure_def event_def demo_platform_def UnknownError_def)

text \<open>
  Claim C5, amended: when the store reports the secret the event's config names as
  unresolvable (the SDK hands the callback an error: the secret is missing, access is
  denied), the handler returns \<^verbatim>\<open>{status: "ERROR", err, message}\<close> where \<open>err\<close> is
  that error and \<open>message\<close> is its message property, whatever the error carries.
\<close>

theorem handler_secret_error_reported:
  assumes "get e ''params'' = Inr params" and "get params ''config'' = Inr cfg"
    and "get cfg ''credsSecretName'' = Inr secretId"
    and "secrets_getSecretValue P (JObj [(''SecretId'', secretId)]) = (err, data)"
    and "truthy err"
  shows "\<exists>m. get err ''message'' = Inr m
           \<and> snd (handler P e) =
               Fulfilled (JObj [(''status'', JStr ''ERROR''), (''err'', err), (''message'', m)])"
proof -
  from \<open>truthy err\<close> obtain m where m: "get err ''message'' = Inr m"
    by (cases err) auto
  from assms(2) have d: "destructure ''e.params'' params ''config'' = Inr cfg"
    by (rule destructure_get)
  from assms m d have
    "snd (handler P e) =
       Fulfilled (JObj [(''status'', JStr ''ERROR''), (''err'', err), (''message'', m)])"
    by (simp add: handler_defs)
  with m show ?thesis by blast
qed

theorem handler_secret_error_reported_witness:
  \<open>get ResourceNotFoundException ''message'' =
     Inr (JStr ''Secrets Manager can't find the specified secret.'')
   \<and> snd (handler demo_platform (event ''nope'')) =
     Fulfilled (JObj [(''status'', JStr ''ERROR''), (''err'', ResourceNotFoundException),
       (''message'', JStr ''Secrets Manager can't find the specified secret.'')])\<close>
proof -
  have m: \<open>get ResourceNotFoundException ''message'' =
      Inr (JStr ''Secrets Manager can't find the specified secret.'')\<close>
    by (simp add: ResourceNotFoundException_def)
  have "\<exists>m. get ResourceNotFoundException ''message'' = Inr m
          \<and> snd (handler demo_platform (event ''nope'')) =
              Fulfilled (JObj [(''status'', JStr ''ERROR''),
                (''err'', ResourceNotFoundException), (''message'', m)])"
    by (rule handler_secret_error_reported [of "event ''nope''"
          "JObj [(''config'', JObj [(''credsSecretName'', JStr ''nope'')])]"
          "JObj [(''credsSecretName'', JStr ''nope'')]" "JStr ''nope''" demo_platform
          ResourceNotFoundException JNull])
      (simp_all add: event_def demo_platform_def demo_secrets_def
        ResourceNotFoundException_def)
  with m show ?thesis by auto
qed

text \<open>
  Claim C7: when the secret the event's config names resolves to a credential
  \<open>secret\<close> (any value but \<^verbatim>\<open>undefined\<close> and \<^verbatim>\<open>null\<close>, so that its properties can be
  read), the handler creates exactly one connection and connects exactly one, with
  the options \<^verbatim>\<open>host: secret.host\<close>, \<^verbatim>\<open>user: secret.username\<close>,
  \<^verbatim>\<open>password: secret.password\<close> and \<^verbatim>\<open>multipleStatements: true\<close>, whatever the
  script and the database then do.
\<close>

theorem handler_one_connection:
  assumes "get e ''params'' = Inr params" and "get params ''config'' = Inr cfg"
    and "get cfg ''credsSecretName'' = Inr secretId"
    and "getSecretValue P secretId = Fulfilled secret"
    and "get secret ''host'' = Inr host'" and "get secret ''username'' = Inr username'"
    and "get secret ''password'' = Inr password'"
  shows "created (fst (handler P e)) =
           [\<lparr>host = host', user = username', password = password', multipleStatements = True\<rparr>]
         \<and> connected (fst (handler P e)) =
           [\<lparr>host = host', user = username', password = password', multipleStatements = True\<rparr>]"
proof -
  from assms(2) have "destructure ''e.params'' params ''config'' = Inr cfg"
    by (rule destructure_get)
  moreover from assms(5-7) have
    "destructure ''(intermediate value)'' secret ''host'' = Inr host'"
    "destructure ''(intermediate value)'' secret ''username'' = Inr username'"
    "destructure ''(intermediate value)'' secret ''password'' = Inr password'"
    by (simp_all add: destructure_get)
  ultimately show ?thesis
    using assms
    by (simp add: handler_def try_block_def await_secret_def with_secret_def run_script_def
        created_def connected_def Let_def split: sum.splits promise.splits)
qed

theorem handler_one_connection_witness:
  "created (fst (handler demo_platform (event ''x''))) =
     [\<lparr>host = JStr ''h'', user = JStr ''admin'', password = JStr ''p'',
       multipleStatements = True\<rparr>]
   \<and> connected (fst (handler demo_platform (event ''x''))) =
     [\<lparr>host = JStr ''h'', user = JStr ''admin'', password = JStr ''p'',
       multipleStatements = True\<rparr>]"
  using handler_one_connection [of "event ''x''"
      "JObj [(''config'', JObj [(''credsSecretName'', JStr ''x'')])]"
      "JObj [(''credsSecretName'', JStr ''x'')]" "JStr ''x''" demo_platform
      "JObj [(''username'', JStr ''admin''), (''password'', JStr ''p''), (''host'', JStr ''h'')]"
      "JStr ''h''" "JStr ''admin''" "JStr ''p''"]
  by (simp add: event_def demo_platform_def demo_secrets_def demo_JSON_parse_def
      getSecretValue_def)

section \<open>The construct's function, payload and timeout\<close>


text \<open>
  Claim C8 says that the function's memory size is 128 when \<^verbatim>\<open>fnMemorySize\<close> is not
  given, and the given value when it is. A given \<^verbatim>\<open>0\<close> is not used: the memory size
  is 128.
\<close>

theorem memorySize_given_zero:
  "memorySize (function' (CdkResourceInitializer demo_cdk ''MyRdsInit''
      (demo_props\<lparr>fnMemorySize := Some (Finite 0)\<rparr>))) \<noteq> Finite 0"
  by (simp add: CdkResourceInitializer_def fn_def or_default_def)

text \<open>
  Claim C8, amended: the function's memory size is 128 when \<^verbatim>\<open>fnMemorySize\<close> is not
  given, and the given value when it is given and truthy (neither zero nor NaN).
\<close>

theorem memorySize_default:
  "(fnMemorySize props = None \<longrightarrow>
      memorySize (function' (CdkResourceInitializer C id' props)) = Finite 128)
   \<and> (\<forall>n. fnMemorySize props = Some n \<longrightarrow> truthy_number n \<longrightarrow>
      memorySize (function' (CdkResourceInitializer C id' props)) = n)"
  by (simp add: CdkResourceInitializer_def fn_def or_default_def)

theorem memorySize_default_witness:
  "memorySize (function' (CdkResourceInitializer demo_cdk ''MyRdsInit'' demo_props)) = Finite 128
   \<and> memorySize (function' (CdkResourceInitializer demo_cdk ''MyRdsInit''
        (demo_props\<lparr>fnMemorySize := Some (Finite 256)\<rparr>))) = Finite 256"
  using memorySize_default [of demo_props demo_cdk "''MyRdsInit''"]
    memorySize_default [of "demo_props\<lparr>fnMemorySize := Some (Finite 256)\<rparr>" demo_cdk
      "''MyRdsInit''"]
  by (simp add: demo_props_def)

text \<open>
  Claim C9: when \<^verbatim>\<open>fnMemorySize\<close> is given as \<^verbatim>\<open>0\<close>, the function's memory size is
  128 and not 0; every falsy \<^verbatim>\<open>fnMemorySize\<close> (zero, NaN) is replaced by 128.
\<close>

theorem memorySize_falsy:
  "(fnMemorySize props = Some (Finite 0) \<longrightarrow>
      memorySize (function' (CdkResourceInitializer C id' props)) = Finite 128
      \<and> memorySize (function' (CdkResourceInitializer C id' props)) \<noteq> Finite 0)
   \<and> (\<forall>n. fnMemorySize props = Some n \<longrightarrow> \<not> truthy_number n \<longrightarrow>
      memorySize (function' (CdkResourceInitializer C id' props)) = Finite 128)"
  by (simp add: CdkResourceInitializer_def fn_def or_default_def)

theorem memorySize_falsy_witness:
  "memorySize (function' (CdkResourceInitializer demo_cdk ''MyRdsInit''
        (demo_props\<lparr>fnMemorySize := Some (Finite 0)\<rparr>))) = Finite 128
   \<and> memorySize (function' (CdkResourceInitializer demo_cdk ''MyRdsInit''
        (demo_props\<lparr>fnMemorySize := Some NaN\<rparr>))) = Finite 128"
  using memorySize_falsy [of "demo_props\<lparr>fnMemorySize := Some (Finite 0)\<rparr>" demo_cdk
      "''MyRdsInit''"]
    memorySize_falsy [of "demo_props\<lparr>fnMemorySize := Some NaN\<rparr>" demo_cdk "''MyRdsInit''"]
  by simp

text \<open>
  Claim C10: whatever \<^verbatim>\<open>fnTimeout\<close> the configuration gives, the timeout of the
  custom resource is \<^verbatim>\<open>Duration.minutes(10)\<close>.
\<close>

theorem customResource_timeout_fixed:
  "timeout (customResource (CdkResourceInitializer C id' (props\<lparr>fnTimeout := t\<rparr>))) =
     Duration_minutes (Finite 10)"
  by (simp add: CdkResourceInitializer_def)

section \<open>The identity token\<close>

lemma hex_digit_inj: "a < 16 \<Longrightarrow> b < 16 \<Longrightarrow> hex_digit a = hex_digit b \<Longrightarrow> a = b"
proof -
  have d: "distinct ''0123456789abcdef''" by simp
  have l: "length ''0123456789abcdef'' = 16" by simp
  show "a < 16 \<Longrightarrow> b < 16 \<Longrightarrow> hex_digit a = hex_digit b \<Longrightarrow> a = b"
    unfolding hex_digit_def using d l by (metis nth_eq_iff_index_eq)
qed

lemma length_hex_digits: "length (hex_digits k n) = k"
  by (induction k arbitrary: n) auto

lemma hex_digits_inj: "hex_digits k n = hex_digits k m \<Longrightarrow> n mod 16 ^ k = m mod 16 ^ k"
proof (induction k arbitrary: n m)
  case 0
  then show ?case by simp
next
  case (Suc k)
  from Suc.prems have eq: "hex_digits k (n div 16) = hex_digits k (m div 16)"
    and dg: "hex_digit (n mod 16) = hex_digit (m mod 16)"
    by (simp_all add: length_hex_digits)
  from dg have r: "n mod 16 = m mod 16"
    by (intro hex_digit_inj) simp_all
  from Suc.IH [OF eq] have q: "(n div 16) mod 16 ^ k = (m div 16) mod 16 ^ k" .
  have "n mod (16 * 16 ^ k) = 16 * ((n div 16) mod 16 ^ k) + n mod 16"
    by (simp add: mod_mult2_eq)
  moreover have "m mod (16 * 16 ^ k) = 16 * ((m div 16) mod 16 ^ k) + m mod 16"
    by (simp add: mod_mult2_eq)
  ultimately show ?case using r q by simp
qed

text \<open>The hexadecimal text of a digest has 32 digits and determines the digest.\<close>

lemma length_digest_hex: "length (digest_hex w) = 32"
  by (simp add: digest_hex_def length_hex_digits)

lemma digest_hex_inj: "digest_hex a = digest_hex b \<Longrightarrow> a = b"
proof -
  assume "digest_hex a = digest_hex b"
  then have "unat a mod 16 ^ 32 = unat b mod 16 ^ 32"
    unfolding digest_hex_def by (rule hex_digits_inj)
  moreover have "unat a < 16 ^ 32" "unat b < 16 ^ 32"
    using unsigned_less [of a] unsigned_less [of b] by simp_all
  ultimately have "unat a = unat b" by simp
  then show "a = b" by (simp add: word_unat_eq_iff)
qed

lemma hash_input_inj:
  "length h1 = length h2 \<Longrightarrow> hash_input h1 p1 = hash_input h2 p2 \<Longrightarrow> h1 = h2 \<and> p1 = p2"
  by (simp add: hash_input_def)

lemma token_eq_iff:
  "token C h1 p1 = token C h2 p2 \<longleftrightarrow>
   md5 C (hash_input h1 p1) = md5 C (hash_input h2 p2)"
  by (auto simp: token_def dest: digest_hex_inj)

text \<open>
  The token is a function of the function hash and the payload alone: two
  constructions with the same function hash and the same payload get the same token.
  When either differs (the function hashes being of one length, as digests are) the
  string that is hashed differs, and the tokens of two constructions are equal
  exactly when the MD5 digests of their two strings are.
\<close>

lemma token_determined:
  "(calculateFunctionHash C (fn id1 props1) = calculateFunctionHash C (fn id2 props2) \<longrightarrow>
      payload C props1 = payload C props2 \<longrightarrow>
      physicalResIdHash C id1 props1 = physicalResIdHash C id2 props2)
   \<and> (length (calculateFunctionHash C (fn id1 props1)) =
        length (calculateFunctionHash C (fn id2 props2)) \<longrightarrow>
      (calculateFunctionHash C (fn id1 props1) \<noteq> calculateFunctionHash C (fn id2 props2) \<or>
       payload C props1 \<noteq> payload C props2) \<longrightarrow>
      hash_input (calculateFunctionHash C (fn id1 props1)) (payload C props1) \<noteq>
      hash_input (calculateFunctionHash C (fn id2 props2)) (payload C props2))
   \<and> (physicalResIdHash C id1 props1 = physicalResIdHash C id2 props2 \<longleftrightarrow>
      md5 C (hash_input (calculateFunctionHash C (fn id1 props1)) (payload C props1)) =
      md5 C (hash_input (calculateFunctionHash C (fn id2 props2)) (payload C props2)))"
  by (auto simp: physicalResIdHash_def token_eq_iff dest: hash_input_inj)

text \<open>
  Whether two different strings can get the same token rests on MD5 alone. There are
  more configs of 33 hexadecimal digits than digests of 128 bits, so under every
  function hash, and whatever function computes the digest, two of their payloads
  share a token; the counting names no such pair.
\<close>

lemma finite_hex_chars: "finite hex_chars"
  by (simp add: hex_chars_def)

lemma card_hex_chars: "card hex_chars = 16"
proof -
  have "card (set ''0123456789abcdef'') = length ''0123456789abcdef''"
    by (rule distinct_card) simp
  then show ?thesis by (simp add: hex_chars_def)
qed

lemma card_hex_strings: "card {s. set s \<subseteq> hex_chars \<and> length s = 33} = 16 ^ 33"
  using card_lists_length_eq [OF finite_hex_chars, of 33] by (simp only: card_hex_chars)

lemma token_collision_exists:
  "\<exists>s t. set s \<subseteq> hex_chars \<and> length s = 33 \<and> set t \<subseteq> hex_chars \<and> length t = 33 \<and> s \<noteq> t
         \<and> token C functionHash (string_payload s) = token C functionHash (string_payload t)"
proof -
  let ?S = "{s. set s \<subseteq> hex_chars \<and> length s = 33}"
  let ?f = "\<lambda>s. md5 C (hash_input functionHash (string_payload s))"
  have "\<not> inj_on ?f ?S"
  proof
    assume "inj_on ?f ?S"
    then have "card (?f ` ?S) = card ?S"
      by (rule card_image)
    moreover have "card (?f ` ?S) \<le> card (UNIV :: 128 word set)"
      by (rule card_mono) simp_all
    ultimately have "(16::nat) ^ 33 \<le> 2 ^ 128"
      by (simp only: card_hex_strings card_word len_of_numeral_defs) simp
    then show False by simp
  qed
  then obtain s t where "s \<in> ?S" "t \<in> ?S" "s \<noteq> t" "?f s = ?f t"
    unfolding inj_on_def by blast
  then show ?thesis
    by (intro exI [of _ s] exI [of _ t]) (simp add: token_def)
qed

end
